theory Spec2Isabelle
  imports Complex_Main
begin

section \<open>JavaScript values read by the scanner\<close>

text \<open>
  The scanner is JavaScript: every number is a double. The score itself only ever holds
  small integers (sums of the constants 2, 3, 5, 7, 10, 15, 20, 25, 50 and of array
  lengths times 10, 5 and 2), which doubles represent exactly, so it is an \<open>int\<close> here.
  The fetched quantities (USD amounts, percentages, ages) are only ever \<^emph>\<open>compared\<close>
  with numeric literals by the code modelled below; a finite double is the real number it
  denotes, and the three special values are kept apart because every comparison with
  \<open>NaN\<close> is false.
\<close>

datatype jsnum = NaN | NegInf | Fin real | PosInf

text \<open>The operator \<^verbatim>\<open><\<close> of JavaScript on two numbers; \<^verbatim>\<open>a > b\<close> is \<open>js_less b a\<close>.\<close>

fun js_less :: "jsnum \<Rightarrow> jsnum \<Rightarrow> bool" where
  "js_less (Fin a) (Fin b) = (a < b)"
| "js_less NegInf (Fin b) = True"
| "js_less NegInf PosInf = True"
| "js_less (Fin a) PosInf = True"
| "js_less _ _ = False"

text \<open>\<^verbatim>\<open>Math.max(a, b)\<close>: \<open>NaN\<close> as soon as one argument is.\<close>

fun js_max :: "jsnum \<Rightarrow> jsnum \<Rightarrow> jsnum" where
  "js_max NaN _ = NaN"
| "js_max _ NaN = NaN"
| "js_max a b = (if js_less a b then b else a)"

text \<open>
  \<^verbatim>\<open>v || 0\<close> for a value that is \<^verbatim>\<open>null\<close> (\<open>None\<close>) or a number: \<^verbatim>\<open>null\<close>, \<open>NaN\<close>
  and zero are falsy and give \<open>0\<close>.
\<close>

fun or_zero :: "jsnum option \<Rightarrow> jsnum" where
  "or_zero None = Fin 0"
| "or_zero (Some NaN) = Fin 0"
| "or_zero (Some v) = v"

section \<open>Signal results\<close>

text \<open>The labels \<^verbatim>\<open>'LOW'\<close>, \<^verbatim>\<open>'MEDIUM'\<close>, \<^verbatim>\<open>'HIGH'\<close>, \<^verbatim>\<open>'CRITICAL'\<close>, \<^verbatim>\<open>'UNKNOWN'\<close>.\<close>

datatype risk_label = LOW | MEDIUM | HIGH | CRITICAL | UNKNOWN

text \<open>
  Every fetcher returns an object tagged by its \<^verbatim>\<open>success\<close> property:
  \<^verbatim>\<open>{ success: false, risk: ..., error: ... }\<close> (the error message is absent on two paths of
  \<^verbatim>\<open>checkContractFunctions\<close>), or \<^verbatim>\<open>{ success: true, ...fields, risk: ... }\<close>, where the
  sentiment fetcher sets no \<^verbatim>\<open>risk\<close> property at all (\<open>None\<close>).
\<close>

datatype 'f signal_result =
    Failed risk_label "string option"
  | Ok "risk_label option" 'f

fun success :: "'f signal_result \<Rightarrow> bool" where
  "success (Failed _ _) = False"
| "success (Ok _ _) = True"

fun risk :: "'f signal_result \<Rightarrow> risk_label option" where
  "risk (Failed r _) = Some r"
| "risk (Ok r _) = r"

text \<open>
  \<^verbatim>\<open>results.x?.success\<close>: the entries of \<^verbatim>\<open>results\<close> start as \<^verbatim>\<open>null\<close> (\<open>None\<close>), for
  which the optional chaining gives \<^verbatim>\<open>undefined\<close>, which is falsy.
\<close>

fun succeeded :: "'f signal_result option \<Rightarrow> bool" where
  "succeeded None = False"
| "succeeded (Some r) = success r"

datatype owner_status = Renounced | Active | NoOwnerFunction

record tokenInfo_fields =
  ownerStatus :: owner_status
  contractAge :: "jsnum option"

text \<open>
  \<^verbatim>\<open>findings = { critical: [], high: [], medium: [], info: [] }\<close>; the honeypot fetcher's
  \<^verbatim>\<open>issues\<close> object has the same four arrays.
\<close>

record 'a findings =
  critical :: "'a list"
  high :: "'a list"
  medium :: "'a list"
  info :: "'a list"

text \<open>A finding \<^verbatim>\<open>{ name: func, risk: '...' }\<close>.\<close>

type_synonym finding = "string \<times> string"

record contractScan_fields =
  functionCount :: nat
  findings :: "finding findings"

record liquidity_fields =
  liquidityUSD :: jsnum
  safePercent :: jsnum

record holders_fields =
  top1Percent :: jsnum
  top10Percent :: jsnum

text \<open>
  The issues of the honeypot fetcher are pushed as message strings, some with a formatted
  number inside; only the number of entries of each array is ever read, so an issue is
  its kind and, where the message has one, the number.
\<close>

datatype issue =
    Honeypot | CannotBuy | CannotSellAll | AirdropScam | ExtremeSellTax jsnum
  | OwnerChangeBalance | ReclaimOwnership | HiddenOwner | Mintable | HighSellTax jsnum
  | Proxy | TransferPausable | Blacklist | TradingCooldown | ModerateSellTax jsnum
  | Verified | AntiWhale
  | LpHardlySecured jsnum | LpPartlySecured jsnum | LpSecured jsnum

record honeypot_flags =
  isHoneypot :: bool
  buyTax :: "jsnum option"
  sellTax :: "jsnum option"
  isProxy :: bool
  isMintable :: bool
  canTakeBackOwnership :: bool
  ownerCanChangeBalance :: bool
  hiddenOwner :: bool
  cannotBuy :: bool
  cannotSellAll :: bool
  transferPausable :: bool
  isBlacklisted :: bool
  tradingCooldown :: bool
  isAntiWhale :: bool
  isOpenSource :: bool
  isAirdropScam :: bool
  lpHoldersCount :: nat
  lpSafePercent :: jsnum

record honeypot_fields = honeypot_flags +
  issues :: "issue findings"

datatype sentiment_level = VeryBullish | Bullish | Neutral | Bearish | VeryBearish

record sentiment_fields =
  sentimentScore :: jsnum
  sentimentLevel :: sentiment_level

text \<open>The object \<^verbatim>\<open>results\<close> of \<^verbatim>\<open>rugCheck\<close> and \<^verbatim>\<open>silentScan\<close>.\<close>

record results =
  tokenInfo :: "tokenInfo_fields signal_result option"
  contractScan :: "contractScan_fields signal_result option"
  liquidity :: "liquidity_fields signal_result option"
  holders :: "holders_fields signal_result option"
  honeypot :: "honeypot_fields signal_result option"
  sentiment :: "sentiment_fields signal_result option"

section \<open>The risk score of \<^verbatim>\<open>rugCheck\<close> and \<^verbatim>\<open>silentScan\<close>\<close>

text \<open>
  Both functions, in both versions of the scanner (single-chain and multi-chain), hold the
  same block: \<^verbatim>\<open>let riskScore = 0\<close>, five \<^verbatim>\<open>if (results.x?.success) { riskScore += ... }\<close>
  statements, \<^verbatim>\<open>riskScore = Math.min(riskScore, 100)\<close> and the ladder of the verdict. Each
  definition below is what one of the five statements adds.
\<close>

definition tokenInfoPoints :: "tokenInfo_fields signal_result option \<Rightarrow> int" where
  "tokenInfoPoints r =
     (case r of
        Some (Ok _ t) \<Rightarrow>
          (if ownerStatus t = Active then 15 else 0) +
          (case contractAge t of
             None \<Rightarrow> 0
           | Some age \<Rightarrow>
               if js_less age (Fin 7) then 10
               else if js_less age (Fin 30) then 5
               else 0)
      | _ \<Rightarrow> 0)"

definition contractScanPoints :: "contractScan_fields signal_result option \<Rightarrow> int" where
  "contractScanPoints r =
     (case r of
        Some (Ok _ c) \<Rightarrow>
          int (length (critical (findings c))) * 10 +
          int (length (high (findings c))) * 5 +
          int (length (medium (findings c))) * 2
      | _ \<Rightarrow> 15)"

definition liquidityPoints :: "liquidity_fields signal_result option \<Rightarrow> int" where
  "liquidityPoints r =
     (case r of
        Some (Ok _ l) \<Rightarrow>
          (if js_less (liquidityUSD l) (Fin 1000) then 15
           else if js_less (liquidityUSD l) (Fin 10000) then 10
           else if js_less (liquidityUSD l) (Fin 50000) then 5
           else 0) +
          (if js_less (safePercent l) (Fin 20) then 10
           else if js_less (safePercent l) (Fin 50) then 7
           else if js_less (safePercent l) (Fin 80) then 3
           else 0)
      | _ \<Rightarrow> 20)"

definition holdersPoints :: "holders_fields signal_result option \<Rightarrow> int" where
  "holdersPoints r =
     (case r of
        Some (Ok _ h) \<Rightarrow>
          (if js_less (Fin 30) (top1Percent h) then 15
           else if js_less (Fin 20) (top1Percent h) then 10
           else if js_less (Fin 10) (top1Percent h) then 5
           else 0) +
          (if js_less (Fin 70) (top10Percent h) then 10
           else if js_less (Fin 50) (top10Percent h) then 5
           else 0)
      | _ \<Rightarrow> 0)"

definition honeypotPoints :: "honeypot_fields signal_result option \<Rightarrow> int" where
  "honeypotPoints r =
     (case r of
        Some (Ok _ h) \<Rightarrow>
          (if isHoneypot h then 50 else 0) +
          (if cannotBuy h then 20 else 0) +
          (if cannotSellAll h then 20 else 0) +
          (if ownerCanChangeBalance h then 15 else 0) +
          (if hiddenOwner h then 10 else 0) +
          (if canTakeBackOwnership h then 10 else 0) +
          (let tax = or_zero (sellTax h) in
           if js_less (Fin 50) tax then 25
           else if js_less (Fin 20) tax then 10
           else if js_less (Fin 10) tax then 5
           else 0)
      | _ \<Rightarrow> 0)"

text \<open>The value of \<^verbatim>\<open>riskScore\<close> before \<^verbatim>\<open>Math.min\<close>.\<close>

definition rawScore :: "results \<Rightarrow> int" where
  "rawScore rs =
     0 + tokenInfoPoints (tokenInfo rs) + contractScanPoints (contractScan rs) +
     liquidityPoints (liquidity rs) + holdersPoints (holders rs) +
     honeypotPoints (honeypot rs)"

text \<open>\<^verbatim>\<open>riskScore = Math.min(riskScore, 100)\<close>.\<close>

definition riskScore :: "results \<Rightarrow> int" where
  "riskScore rs = min (rawScore rs) 100"

text \<open>The ladder \<^verbatim>\<open>if (riskScore >= 75) ... else if (riskScore >= 50) ...\<close>.\<close>

definition levelOf :: "int \<Rightarrow> risk_label" where
  "levelOf score =
     (if score \<ge> 75 then CRITICAL
      else if score \<ge> 50 then HIGH
      else if score \<ge> 25 then MEDIUM
      else LOW)"

text \<open>\<^verbatim>\<open>riskLevel\<close> in \<^verbatim>\<open>silentScan\<close>, \<^verbatim>\<open>overallRisk\<close> in \<^verbatim>\<open>rugCheck\<close>.\<close>

definition riskLevel :: "results \<Rightarrow> risk_label" where
  "riskLevel rs = levelOf (riskScore rs)"

section \<open>The fetchers\<close>

text \<open>
  A fetcher awaits network calls inside \<^verbatim>\<open>try\<close> blocks and then classifies what it read.
  The network is not modelled: each fetcher below takes what its awaited calls gave, and
  is the rest of the function. \<open>Threw msg\<close> stands for an exception with message \<open>msg\<close>
  raised inside the \<^verbatim>\<open>try\<close> block the value belongs to. Quantities that the source
  computes by floating-point arithmetic before it classifies them (sums of percentages,
  products with a price) are taken as they stand at the classification.
\<close>

datatype 'a outcome = Threw string | Returned 'a

subsection \<open>\<^verbatim>\<open>checkTokenInfo\<close>\<close>

text \<open>
  \<open>basics\<close>: the \<^verbatim>\<open>Promise.all\<close> of \<^verbatim>\<open>name\<close>, \<^verbatim>\<open>symbol\<close>, \<^verbatim>\<open>decimals\<close> and
  \<^verbatim>\<open>totalSupply\<close>; \<open>ownerCall\<close>: \<^verbatim>\<open>token.owner()\<close>, in a \<^verbatim>\<open>try\<close> of its own; \<open>age\<close>:
  \<^verbatim>\<open>contractAge\<close> after the explorer request (\<^verbatim>\<open>null\<close> when there is no API key, no
  transaction, or the request threw).
\<close>

definition checkTokenInfo ::
  "unit outcome \<Rightarrow> string outcome \<Rightarrow> jsnum option \<Rightarrow> tokenInfo_fields signal_result" where
  "checkTokenInfo basics ownerCall age =
     (case basics of
        Threw msg \<Rightarrow> Failed UNKNOWN (Some msg)
      | Returned _ \<Rightarrow>
          (let status =
             (case ownerCall of
                Threw _ \<Rightarrow> NoOwnerFunction
              | Returned owner \<Rightarrow>
                  if owner = ''0x0000000000000000000000000000000000000000''
                  then Renounced else Active)
           in Ok (Some (if status = Active then MEDIUM else LOW))
                \<lparr>ownerStatus = status, contractAge = age\<rparr>))"

subsection \<open>\<^verbatim>\<open>checkContractFunctions\<close>\<close>

text \<open>\<^verbatim>\<open>func.includes(k)\<close>: \<open>k\<close> occurs in \<open>func\<close> as a substring.\<close>

fun str_includes :: "string \<Rightarrow> string \<Rightarrow> bool" where
  "str_includes [] k = (k = [])"
| "str_includes (c # cs) k = (take (length k) (c # cs) = k \<or> str_includes cs k)"

definition minting :: "string list" where
  "minting = [''mint'', ''issue'', ''create'', ''inflate'']"

definition pausing :: "string list" where
  "pausing = [''pause'', ''freeze'', ''halt'', ''suspend'']"

definition blacklisting :: "string list" where
  "blacklisting = [''blacklist'', ''blocklist'', ''ban'', ''exclude'']"

definition fees :: "string list" where
  "fees = [''setfee'', ''settax'', ''updatefee'', ''updatetax'']"

text \<open>One iteration of \<^verbatim>\<open>for (const func of functions)\<close>.\<close>

definition scanFunction :: "finding findings \<Rightarrow> string \<Rightarrow> finding findings" where
  "scanFunction f0 func =
     (let f1 = (if list_ex (str_includes func) minting
                then f0\<lparr>critical := critical f0 @ [(func, ''Can create new tokens'')]\<rparr> else f0);
          f2 = (if list_ex (str_includes func) pausing
                then f1\<lparr>high := high f1 @ [(func, ''Can freeze trading'')]\<rparr> else f1);
          f3 = (if list_ex (str_includes func) blacklisting
                then f2\<lparr>high := high f2 @ [(func, ''Can block wallets'')]\<rparr> else f2)
      in if list_ex (str_includes func) fees
         then f3\<lparr>medium := medium f3 @ [(func, ''Can change fees'')]\<rparr> else f3)"

text \<open>
  \<open>hasApiKey\<close>: \<^verbatim>\<open>chain.explorer.apiKey\<close> is truthy (always, in the single-chain version,
  which has no such test). \<open>abi\<close>: the explorer's answer, \<open>Returned None\<close> when
  \<^verbatim>\<open>!result || result.status !== '1'\<close>, and otherwise the lower-cased names of the
  functions of the parsed ABI.
\<close>

definition checkContractFunctions ::
  "bool \<Rightarrow> string list option outcome \<Rightarrow> contractScan_fields signal_result" where
  "checkContractFunctions hasApiKey abi =
     (if \<not> hasApiKey then Failed UNKNOWN None
      else
        (case abi of
           Threw msg \<Rightarrow> Failed UNKNOWN (Some msg)
         | Returned None \<Rightarrow> Failed UNKNOWN None
         | Returned (Some functions) \<Rightarrow>
             (let found = foldl scanFunction
                            \<lparr>critical = [], high = [], medium = [], info = []\<rparr> functions;
                  label =
                    (if length (critical found) > 0 then CRITICAL
                     else if length (high found) \<ge> 2 then HIGH
                     else if length (high found) > 0 \<or> length (medium found) \<ge> 2
                     then MEDIUM
                     else LOW)
              in Ok (Some label)
                   \<lparr>functionCount = length functions, findings = found\<rparr>)))"

subsection \<open>\<^verbatim>\<open>checkLiquidity\<close>\<close>

text \<open>The ladder at the end of \<^verbatim>\<open>checkLiquidity\<close>, on \<^verbatim>\<open>liquidityUSD\<close> and \<^verbatim>\<open>safePercent\<close>.\<close>

definition liquidityRisk :: "jsnum \<Rightarrow> jsnum \<Rightarrow> risk_label" where
  "liquidityRisk usd safe =
     (if js_less usd (Fin 10000) \<and> js_less safe (Fin 50) then CRITICAL
      else if js_less usd (Fin 50000) \<or> js_less safe (Fin 80) then MEDIUM
      else if js_less safe (Fin 50) then HIGH
      else LOW)"

text \<open>
  \<open>prices\<close>: \<^verbatim>\<open>priceInUSD\<close>, \<^verbatim>\<open>dexScreenerLiquidity\<close> and \<^verbatim>\<open>dexLiquidity\<close> as they stand
  at the test \<^verbatim>\<open>priceInUSD === 0\<close>, or an exception before it (outside the inner \<^verbatim>\<open>try\<close>
  blocks); \<open>locks\<close>: \<^verbatim>\<open>safePercent\<close> after the LP-lock block, or an exception between the
  test and the classification.
\<close>

definition checkLiquidity ::
  "(jsnum \<times> jsnum \<times> jsnum) outcome \<Rightarrow> jsnum outcome \<Rightarrow> liquidity_fields signal_result" where
  "checkLiquidity prices locks =
     (case prices of
        Threw msg \<Rightarrow> Failed UNKNOWN (Some msg)
      | Returned (priceInUSD, dexScreenerLiquidity, dexLiquidity) \<Rightarrow>
          if priceInUSD = Fin 0 then Failed CRITICAL (Some ''No liquidity pool found'')
          else
            (case locks of
               Threw msg \<Rightarrow> Failed UNKNOWN (Some msg)
             | Returned safe \<Rightarrow>
                 (let usd = js_max dexScreenerLiquidity dexLiquidity
                  in Ok (Some (liquidityRisk usd safe))
                       \<lparr>liquidityUSD = usd, safePercent = safe\<rparr>)))"

subsection \<open>\<^verbatim>\<open>checkHolders\<close>\<close>

definition holdersRisk :: "jsnum \<Rightarrow> jsnum \<Rightarrow> risk_label" where
  "holdersRisk top1 top10 =
     (if js_less (Fin 30) top1 then CRITICAL
      else if js_less (Fin 20) top1 \<or> js_less (Fin 70) top10 then HIGH
      else if js_less (Fin 10) top1 \<or> js_less (Fin 50) top10 then MEDIUM
      else LOW)"

text \<open>
  The multi-chain version asks Moralis, then GoPlus. Each answer is \<open>Returned None\<close> when
  it lists no holder, and otherwise \<^verbatim>\<open>top1Percent\<close> and \<^verbatim>\<open>top10Percent\<close> as the loop over
  the holders leaves them. (The single-chain version asks Moralis alone and fails with
  \<^verbatim>\<open>risk: 'UNKNOWN'\<close> where this one goes on to GoPlus.)
\<close>

definition checkHolders ::
  "(jsnum \<times> jsnum) option outcome \<Rightarrow> (jsnum \<times> jsnum) option outcome \<Rightarrow>
   holders_fields signal_result" where
  "checkHolders moralis goplus =
     (case moralis of
        Returned (Some (top1, top10)) \<Rightarrow>
          Ok (Some (holdersRisk top1 top10)) \<lparr>top1Percent = top1, top10Percent = top10\<rparr>
      | _ \<Rightarrow>
          (case goplus of
             Returned (Some (top1, top10)) \<Rightarrow>
               Ok (Some (holdersRisk top1 top10)) \<lparr>top1Percent = top1, top10Percent = top10\<rparr>
           | _ \<Rightarrow> Failed UNKNOWN (Some ''No holder data available'')))"

subsection \<open>\<^verbatim>\<open>checkHoneypot\<close>\<close>

text \<open>\<^verbatim>\<open>if (c) xs.push(x)\<close>.\<close>

definition pushIf :: "bool \<Rightarrow> 'a \<Rightarrow> 'a list \<Rightarrow> 'a list" where
  "pushIf c x xs = (if c then xs @ [x] else xs)"

text \<open>\<^verbatim>\<open>t !== null && lo < t && t <= hi\<close> and \<^verbatim>\<open>t !== null && t > lo\<close>, on the sell tax.\<close>

fun js_le :: "jsnum \<Rightarrow> jsnum \<Rightarrow> bool" where
  "js_le NaN _ = False"
| "js_le _ NaN = False"
| "js_le a b = (a = b \<or> js_less a b)"

definition taxAbove :: "jsnum option \<Rightarrow> real \<Rightarrow> bool" where
  "taxAbove t lo = (case t of None \<Rightarrow> False | Some v \<Rightarrow> js_less (Fin lo) v)"

definition taxWithin :: "jsnum option \<Rightarrow> real \<Rightarrow> real \<Rightarrow> bool" where
  "taxWithin t lo hi =
     (case t of None \<Rightarrow> False | Some v \<Rightarrow> js_less (Fin lo) v \<and> js_le v (Fin hi))"

text \<open>The number the messages print, \<^verbatim>\<open>result.sellTax.toFixed(1)\<close>, read only when not null.\<close>

definition taxShown :: "jsnum option \<Rightarrow> jsnum" where
  "taxShown t = (case t of None \<Rightarrow> NaN | Some v \<Rightarrow> v)"

text \<open>
  The four arrays of \<^verbatim>\<open>result.issues\<close> after "Categorize issues" and "LP risk
  assessment", each in the order of the pushes.
\<close>

definition categorize :: "honeypot_flags \<Rightarrow> issue findings" where
  "categorize d =
     (let lp = lpHoldersCount d > 0;
          safe = lpSafePercent d;
          hardly = lp \<and> js_less safe (Fin 20);
          partly = lp \<and> \<not> js_less safe (Fin 20) \<and> js_less safe (Fin 50);
          secured = lp \<and> \<not> js_less safe (Fin 20) \<and> \<not> js_less safe (Fin 50) \<and>
                    js_le (Fin 80) safe
      in \<lparr>critical =
            pushIf hardly (LpHardlySecured safe)
             (pushIf (taxAbove (sellTax d) 50) (ExtremeSellTax (taxShown (sellTax d)))
               (pushIf (isAirdropScam d) AirdropScam
                 (pushIf (cannotSellAll d) CannotSellAll
                   (pushIf (cannotBuy d) CannotBuy
                     (pushIf (isHoneypot d) Honeypot []))))),
          high =
            pushIf partly (LpPartlySecured safe)
             (pushIf (taxWithin (sellTax d) 20 50) (HighSellTax (taxShown (sellTax d)))
               (pushIf (isMintable d) Mintable
                 (pushIf (hiddenOwner d) HiddenOwner
                   (pushIf (canTakeBackOwnership d) ReclaimOwnership
                     (pushIf (ownerCanChangeBalance d) OwnerChangeBalance []))))),
          medium =
            pushIf (taxWithin (sellTax d) 10 20) (ModerateSellTax (taxShown (sellTax d)))
             (pushIf (tradingCooldown d) TradingCooldown
               (pushIf (isBlacklisted d) Blacklist
                 (pushIf (transferPausable d) TransferPausable
                   (pushIf (isProxy d) Proxy [])))),
          info =
            pushIf secured (LpSecured safe)
             (pushIf (isAntiWhale d) AntiWhale
               (pushIf (isOpenSource d) Verified []))\<rparr>)"

definition honeypotRisk :: "bool \<Rightarrow> issue findings \<Rightarrow> risk_label" where
  "honeypotRisk hp found =
     (if hp \<or> length (critical found) > 0 then CRITICAL
      else if length (high found) \<ge> 2 then HIGH
      else if length (high found) > 0 \<or> length (medium found) \<ge> 2 then MEDIUM
      else LOW)"

text \<open>
  The answer of the security API: \<open>ApiFailed\<close> when \<^verbatim>\<open>!response || response.code !== 1\<close>,
  \<open>NotInDatabase\<close> when \<^verbatim>\<open>!tokenData\<close>, and otherwise the token's flags after \<^verbatim>\<open>toBool\<close>
  and \<^verbatim>\<open>toPercent\<close>, with the number of LP holders and \<^verbatim>\<open>lpSafePercent\<close>.
\<close>

datatype security_response = ApiFailed | NotInDatabase | TokenData honeypot_flags

definition checkHoneypot :: "security_response outcome \<Rightarrow> honeypot_fields signal_result" where
  "checkHoneypot response =
     (case response of
        Threw msg \<Rightarrow> Failed UNKNOWN (Some msg)
      | Returned ApiFailed \<Rightarrow> Failed UNKNOWN (Some ''Security API failed'')
      | Returned NotInDatabase \<Rightarrow> Failed UNKNOWN (Some ''Token not in security database'')
      | Returned (TokenData d) \<Rightarrow>
          Ok (Some (honeypotRisk (isHoneypot d) (categorize d)))
             (honeypot_flags.extend d (honeypot_fields.fields (categorize d))))"

subsection \<open>\<^verbatim>\<open>checkSocialSentiment\<close>\<close>

fun js_min :: "jsnum \<Rightarrow> jsnum \<Rightarrow> jsnum" where
  "js_min NaN _ = NaN"
| "js_min _ NaN = NaN"
| "js_min a b = (if js_less a b then a else b)"

text \<open>\<^verbatim>\<open>Math.round\<close>: to the nearest integer, a half upwards.\<close>

fun js_round :: "jsnum \<Rightarrow> jsnum" where
  "js_round (Fin x) = Fin (of_int \<lfloor>x + 1 / 2\<rfloor>)"
| "js_round v = v"

definition sentimentLevelOf :: "jsnum \<Rightarrow> sentiment_level" where
  "sentimentLevelOf score =
     (if js_le (Fin 70) score then VeryBullish
      else if js_le (Fin 55) score then Bullish
      else if js_le (Fin 45) score then Neutral
      else if js_le (Fin 30) score then Bearish
      else VeryBearish)"

text \<open>
  The answer of DexScreener: \<open>NoPairs\<close> when \<^verbatim>\<open>!response || !response.pairs ||
  response.pairs.length === 0\<close>, \<open>NoChainPairs\<close> when no pair is on the chain (multi-chain
  version only), and otherwise \<^verbatim>\<open>sentimentScore\<close> as the main pair's price changes,
  transactions and volume leave it, before it is clamped to 0..100.
\<close>

datatype dex_response = NoPairs | NoChainPairs string | MainPair jsnum

definition checkSocialSentiment :: "dex_response outcome \<Rightarrow> sentiment_fields signal_result" where
  "checkSocialSentiment response =
     (case response of
        Threw msg \<Rightarrow> Failed UNKNOWN (Some msg)
      | Returned NoPairs \<Rightarrow> Failed UNKNOWN (Some ''Token not found on DexScreener'')
      | Returned (NoChainPairs chainName) \<Rightarrow>
          Failed UNKNOWN (Some (''Token not found on '' @ chainName))
      | Returned (MainPair score) \<Rightarrow>
          (let clamped = js_max (Fin 0) (js_min (Fin 100) score)
           in Ok None \<lparr>sentimentScore = js_round clamped,
                       sentimentLevel = sentimentLevelOf clamped\<rparr>))"

section \<open>Comparing two scans\<close>










section \<open>Scans used as examples\<close>

text \<open>The honeypot check of a token with nothing to report: taxes of 2 %, no flag set.\<close>

definition cleanFlags :: honeypot_flags where
  "cleanFlags =
     \<lparr>isHoneypot = False, buyTax = Some (Fin 2), sellTax = Some (Fin 2), isProxy = False,
      isMintable = False, canTakeBackOwnership = False, ownerCanChangeBalance = False,
      hiddenOwner = False, cannotBuy = False, cannotSellAll = False,
      transferPausable = False, isBlacklisted = False, tradingCooldown = False,
      isAntiWhale = False, isOpenSource = False, isAirdropScam = False,
      lpHoldersCount = 0, lpSafePercent = Fin 0\<rparr>"

text \<open>
  A clean scan: ownership renounced, 400 days old, no finding, 200000 USD of liquidity
  with 95 % of the LP tokens secured, the largest holder at 5 % and the ten largest at
  20 %, no honeypot flag, neutral sentiment.
\<close>

definition cleanScan :: results where
  "cleanScan =
     \<lparr>tokenInfo = Some (Ok (Some LOW) \<lparr>ownerStatus = Renounced, contractAge = Some (Fin 400)\<rparr>),
      contractScan = Some (Ok (Some LOW)
        \<lparr>functionCount = 0,
         findings = \<lparr>critical = [], high = [], medium = [], info = []\<rparr>\<rparr>),
      liquidity = Some (Ok (Some LOW) \<lparr>liquidityUSD = Fin 200000, safePercent = Fin 95\<rparr>),
      holders = Some (Ok (Some LOW) \<lparr>top1Percent = Fin 5, top10Percent = Fin 20\<rparr>),
      honeypot = Some (checkHoneypot (Returned (TokenData cleanFlags))),
      sentiment = Some (Ok None \<lparr>sentimentScore = Fin 50, sentimentLevel = Neutral\<rparr>)\<rparr>"

text \<open>The clean scan of a token that the security API flags as a honeypot.\<close>

definition honeypotScan :: results where
  "honeypotScan =
     cleanScan\<lparr>honeypot :=
       Some (checkHoneypot (Returned (TokenData (cleanFlags\<lparr>isHoneypot := True\<rparr>))))\<rparr>"

text \<open>
  The clean scan with four fetchers down: the RPC node (token info), both holder APIs,
  the security API (honeypot check) and DexScreener's sentiment request.
\<close>

definition fourDownScan :: results where
  "fourDownScan =
     cleanScan
       \<lparr>tokenInfo := Some (checkTokenInfo (Threw ''network error'') (Threw ''network error'') None),
        holders := Some (checkHolders (Threw ''fetch failed'') (Returned None)),
        honeypot := Some (checkHoneypot (Returned ApiFailed)),
        sentiment := Some (checkSocialSentiment (Returned NoPairs))\<rparr>"





text \<open>A scan in which every fetcher failed.\<close>

definition failedScan :: results where
  "failedScan =
     \<lparr>tokenInfo = Some (Failed UNKNOWN (Some ''network error'')),
      contractScan = Some (Failed UNKNOWN None),
      liquidity = Some (Failed CRITICAL (Some ''No liquidity pool found'')),
      holders = Some (Failed UNKNOWN (Some ''No holder data available'')),
      honeypot = Some (Failed UNKNOWN (Some ''Security API failed'')),
      sentiment = Some (Failed UNKNOWN (Some ''Token not found on DexScreener''))\<rparr>"

text \<open>
  The scan of the first scenario: an active owner, a contract 3 days old, one critical
  function finding, 500 USD of liquidity with 10 % of the LP tokens secured, the largest
  holder at 40 % and the ten largest at 80 %, not a honeypot, a sell tax of 5 %.
\<close>

definition scenario1 :: results where
  "scenario1 =
     \<lparr>tokenInfo = Some (Ok (Some MEDIUM) \<lparr>ownerStatus = Active, contractAge = Some (Fin 3)\<rparr>),
      contractScan = Some (Ok (Some CRITICAL)
        \<lparr>functionCount = 1,
         findings = \<lparr>critical = [(''mint'', ''Can create new tokens'')], high = [],
                     medium = [], info = []\<rparr>\<rparr>),
      liquidity = Some (Ok (Some CRITICAL) \<lparr>liquidityUSD = Fin 500, safePercent = Fin 10\<rparr>),
      holders = Some (Ok (Some CRITICAL) \<lparr>top1Percent = Fin 40, top10Percent = Fin 80\<rparr>),
      honeypot = Some (checkHoneypot (Returned (TokenData
        (cleanFlags\<lparr>buyTax := Some (Fin 5), sellTax := Some (Fin 5)\<rparr>)))),
      sentiment = Some (Ok None \<lparr>sentimentScore = Fin 50, sentimentLevel = Neutral\<rparr>)\<rparr>"

section \<open>Properties of the score\<close>

lemmas points_defs = tokenInfoPoints_def contractScanPoints_def liquidityPoints_def
  holdersPoints_def honeypotPoints_def

lemmas scan_defs = riskScore_def rawScore_def riskLevel_def levelOf_def points_defs
  checkHoneypot_def checkHolders_def checkTokenInfo_def checkSocialSentiment_def
  cleanFlags_def honeypot_flags.extend_def honeypot_fields.fields_def

subsection \<open>Every contribution is non-negative\<close>

lemma tokenInfoPoints_nonneg: "0 \<le> tokenInfoPoints r"
  by (simp add: tokenInfoPoints_def split: option.split signal_result.split)

lemma contractScanPoints_nonneg: "0 \<le> contractScanPoints r"
  by (simp add: contractScanPoints_def split: option.split signal_result.split)

lemma liquidityPoints_nonneg: "0 \<le> liquidityPoints r"
  by (simp add: liquidityPoints_def split: option.split signal_result.split)

lemma holdersPoints_nonneg: "0 \<le> holdersPoints r"
  by (simp add: holdersPoints_def split: option.split signal_result.split)

lemma honeypotPoints_nonneg: "0 \<le> honeypotPoints r"
  by (simp add: honeypotPoints_def Let_def split: option.split signal_result.split)

lemma rawScore_nonneg: "0 \<le> rawScore rs"
  unfolding rawScore_def
  using tokenInfoPoints_nonneg [of "tokenInfo rs"]
    contractScanPoints_nonneg [of "contractScan rs"]
    liquidityPoints_nonneg [of "liquidity rs"]
    holdersPoints_nonneg [of "holders rs"]
    honeypotPoints_nonneg [of "honeypot rs"]
  by linarith

text \<open>
  C4. For every combination of signal results the score lies between 0 and 100: each of
  the five contributions is non-negative, and the score is the sum of the contributions
  cut at 100.
\<close>

theorem score_clamped:
  "0 \<le> riskScore rs \<and> riskScore rs \<le> 100 \<and>
   0 \<le> tokenInfoPoints (tokenInfo rs) \<and>
   0 \<le> contractScanPoints (contractScan rs) \<and>
   0 \<le> liquidityPoints (liquidity rs) \<and>
   0 \<le> holdersPoints (holders rs) \<and>
   0 \<le> honeypotPoints (honeypot rs) \<and>
   riskScore rs =
     min (tokenInfoPoints (tokenInfo rs) + contractScanPoints (contractScan rs) +
          liquidityPoints (liquidity rs) + holdersPoints (holders rs) +
          honeypotPoints (honeypot rs)) 100"
  using rawScore_nonneg [of rs]
  by (simp add: riskScore_def rawScore_def tokenInfoPoints_nonneg contractScanPoints_nonneg
      liquidityPoints_nonneg holdersPoints_nonneg honeypotPoints_nonneg)

subsection \<open>The honeypot flag\<close>

lemma honeypot_flag_points: "isHoneypot h \<Longrightarrow> 50 \<le> honeypotPoints (Some (Ok lbl h))"
  by (simp add: honeypotPoints_def Let_def)

text \<open>
  C1. Whenever the honeypot check succeeded and reports \<^verbatim>\<open>isHoneypot\<close>, the score is at
  least 50 and the verdict is HIGH or CRITICAL, never LOW or MEDIUM, whatever the other
  signals are.
\<close>

theorem honeypot_dominance:
  assumes "honeypot rs = Some (Ok lbl h)" and "isHoneypot h"
  shows "50 \<le> riskScore rs \<and> (riskLevel rs = HIGH \<or> riskLevel rs = CRITICAL) \<and>
         riskLevel rs \<noteq> LOW \<and> riskLevel rs \<noteq> MEDIUM"
proof -
  have "50 \<le> honeypotPoints (honeypot rs)"
    using assms by (simp add: honeypot_flag_points)
  then have "50 \<le> rawScore rs"
    unfolding rawScore_def
    using tokenInfoPoints_nonneg [of "tokenInfo rs"]
      contractScanPoints_nonneg [of "contractScan rs"]
      liquidityPoints_nonneg [of "liquidity rs"]
      holdersPoints_nonneg [of "holders rs"]
    by linarith
  then have "50 \<le> riskScore rs"
    by (simp add: riskScore_def)
  then show ?thesis
    by (simp add: riskLevel_def levelOf_def)
qed

text \<open>
  The flag alone, on an otherwise clean scan, gives exactly 50 and HIGH: the bound of the
  theorem is reached, and CRITICAL needs 25 more points from elsewhere.
\<close>

theorem honeypot_dominance_witness:
  "honeypot honeypotScan =
     Some (Ok (Some CRITICAL)
       (honeypot_flags.extend (cleanFlags\<lparr>isHoneypot := True\<rparr>)
         (honeypot_fields.fields
           \<lparr>critical = [Honeypot], high = [], medium = [], info = []\<rparr>))) \<and>
   riskScore honeypotScan = 50 \<and> riskLevel honeypotScan = HIGH"
  using honeypot_dominance [of honeypotScan "Some CRITICAL"
      "honeypot_flags.extend (cleanFlags\<lparr>isHoneypot := True\<rparr>)
         (honeypot_fields.fields
           \<lparr>critical = [Honeypot], high = [], medium = [], info = []\<rparr>)"]
  by (simp add: honeypotScan_def cleanScan_def scan_defs categorize_def honeypotRisk_def
      pushIf_def taxAbove_def taxWithin_def)

subsection \<open>Signals that failed\<close>

lemma failed_tokenInfo: "\<not> succeeded r \<Longrightarrow> tokenInfoPoints r = 0"
  by (cases r rule: succeeded.cases)
    (auto simp: tokenInfoPoints_def split: signal_result.split)

lemma failed_contractScan: "\<not> succeeded r \<Longrightarrow> contractScanPoints r = 15"
  by (cases r rule: succeeded.cases)
    (auto simp: contractScanPoints_def split: signal_result.split)

lemma failed_liquidity: "\<not> succeeded r \<Longrightarrow> liquidityPoints r = 20"
  by (cases r rule: succeeded.cases)
    (auto simp: liquidityPoints_def split: signal_result.split)

lemma failed_holders: "\<not> succeeded r \<Longrightarrow> holdersPoints r = 0"
  by (cases r rule: succeeded.cases)
    (auto simp: holdersPoints_def split: signal_result.split)

lemma failed_honeypot: "\<not> succeeded r \<Longrightarrow> honeypotPoints r = 0"
  by (cases r rule: succeeded.cases)
    (auto simp: honeypotPoints_def split: signal_result.split)

text \<open>
  C2, as the claim states it, fails: a signal that failed does not always add a positive
  penalty. With the RPC node, both holder APIs, the security API and DexScreener down,
  and nothing to report on the contract's functions and its liquidity, four of the six
  signals failed and the score is 0, the verdict LOW.
\<close>

theorem missing_penalty_counterexample:
  "\<not> succeeded (tokenInfo fourDownScan) \<and> \<not> succeeded (holders fourDownScan) \<and>
   \<not> succeeded (honeypot fourDownScan) \<and> \<not> succeeded (sentiment fourDownScan) \<and>
   tokenInfoPoints (tokenInfo fourDownScan) = 0 \<and>
   holdersPoints (holders fourDownScan) = 0 \<and>
   honeypotPoints (honeypot fourDownScan) = 0 \<and>
   riskScore fourDownScan = 0 \<and> riskLevel fourDownScan = LOW"
  by (simp add: fourDownScan_def cleanScan_def scan_defs)

text \<open>
  C2, amended. A failed contract-function scan adds a fixed 15 and a failed liquidity
  check a fixed 20 to the sum. A failed token-info, holder or honeypot check adds
  nothing, and the sentiment result is not read at all: replacing it by any other
  leaves the score as it is.
\<close>

theorem missing_data_policy:
  "(\<not> succeeded (contractScan rs) \<longrightarrow> contractScanPoints (contractScan rs) = 15) \<and>
   (\<not> succeeded (liquidity rs) \<longrightarrow> liquidityPoints (liquidity rs) = 20) \<and>
   (\<not> succeeded (tokenInfo rs) \<longrightarrow> tokenInfoPoints (tokenInfo rs) = 0) \<and>
   (\<not> succeeded (holders rs) \<longrightarrow> holdersPoints (holders rs) = 0) \<and>
   (\<not> succeeded (honeypot rs) \<longrightarrow> honeypotPoints (honeypot rs) = 0) \<and>
   riskScore (rs\<lparr>sentiment := s\<rparr>) = riskScore rs \<and>
   riskScore rs =
     min (tokenInfoPoints (tokenInfo rs) + contractScanPoints (contractScan rs) +
          liquidityPoints (liquidity rs) + holdersPoints (holders rs) +
          honeypotPoints (honeypot rs)) 100"
  by (simp add: failed_tokenInfo failed_contractScan failed_liquidity failed_holders
      failed_honeypot riskScore_def rawScore_def)

theorem missing_data_policy_witness:
  "\<not> succeeded (contractScan failedScan) \<and> contractScanPoints (contractScan failedScan) = 15 \<and>
   \<not> succeeded (liquidity failedScan) \<and> liquidityPoints (liquidity failedScan) = 20 \<and>
   \<not> succeeded (tokenInfo failedScan) \<and> tokenInfoPoints (tokenInfo failedScan) = 0 \<and>
   \<not> succeeded (holders failedScan) \<and> holdersPoints (holders failedScan) = 0 \<and>
   \<not> succeeded (honeypot failedScan) \<and> honeypotPoints (honeypot failedScan) = 0 \<and>
   riskScore (failedScan\<lparr>sentiment := sentiment cleanScan\<rparr>) = riskScore failedScan"
  using missing_data_policy [of failedScan "sentiment cleanScan"]
  by (simp add: failedScan_def)

text \<open>
  C3. When all six signals failed, the score is still computed and is strictly positive:
  it is 35, the penalty of the contract-function scan plus that of the liquidity check,
  and the verdict is MEDIUM.
\<close>

theorem all_failed_positive:
  assumes "\<not> succeeded (tokenInfo rs)" and "\<not> succeeded (contractScan rs)"
    and "\<not> succeeded (liquidity rs)" and "\<not> succeeded (holders rs)"
    and "\<not> succeeded (honeypot rs)" and "\<not> succeeded (sentiment rs)"
  shows "riskScore rs = 35 \<and> 0 < riskScore rs \<and> riskLevel rs = MEDIUM"
  using assms
  by (simp add: riskScore_def rawScore_def riskLevel_def levelOf_def failed_tokenInfo
      failed_contractScan failed_liquidity failed_holders failed_honeypot)

theorem all_failed_positive_witness:
  "\<not> succeeded (tokenInfo failedScan) \<and> \<not> succeeded (contractScan failedScan) \<and>
   \<not> succeeded (liquidity failedScan) \<and> \<not> succeeded (holders failedScan) \<and>
   \<not> succeeded (honeypot failedScan) \<and> \<not> succeeded (sentiment failedScan) \<and>
   riskScore failedScan = 35 \<and> riskLevel failedScan = MEDIUM"
  using all_failed_positive [of failedScan]
  by (simp add: failedScan_def)

subsection \<open>The verdict\<close>

text \<open>
  C5. The verdict is read off the clamped score by fixed cut points: CRITICAL from 75,
  HIGH from 50 to 74, MEDIUM from 25 to 49, LOW below 25; in particular 75 gives
  CRITICAL, 74 HIGH, 50 HIGH, 49 MEDIUM, 25 MEDIUM and 24 LOW.
\<close>

theorem verdict_thresholds:
  "riskLevel rs = levelOf (riskScore rs) \<and>
   (75 \<le> p \<longrightarrow> levelOf p = CRITICAL) \<and>
   (50 \<le> p \<and> p < 75 \<longrightarrow> levelOf p = HIGH) \<and>
   (25 \<le> p \<and> p < 50 \<longrightarrow> levelOf p = MEDIUM) \<and>
   (p < 25 \<longrightarrow> levelOf p = LOW) \<and>
   levelOf 75 = CRITICAL \<and> levelOf 74 = HIGH \<and> levelOf 50 = HIGH \<and>
   levelOf 49 = MEDIUM \<and> levelOf 25 = MEDIUM \<and> levelOf 24 = LOW"
  by (simp add: riskLevel_def levelOf_def)

text \<open>One scan in each of the four ranges.\<close>

theorem verdict_thresholds_witness:
  "riskScore scenario1 = 85 \<and> riskLevel scenario1 = CRITICAL \<and>
   riskScore honeypotScan = 50 \<and> riskLevel honeypotScan = HIGH \<and>
   riskScore failedScan = 35 \<and> riskLevel failedScan = MEDIUM \<and>
   riskScore cleanScan = 0 \<and> riskLevel cleanScan = LOW"
proof -
  have s1: "riskScore scenario1 = 85"
    by (simp add: scenario1_def scan_defs)
  have s2: "riskScore honeypotScan = 50"
    by (simp add: honeypotScan_def cleanScan_def scan_defs)
  have s3: "riskScore failedScan = 35"
    by (simp add: failedScan_def scan_defs)
  have s4: "riskScore cleanScan = 0"
    by (simp add: cleanScan_def scan_defs)
  show ?thesis
    using verdict_thresholds [of scenario1 85] verdict_thresholds [of honeypotScan 50]
      verdict_thresholds [of failedScan 35] verdict_thresholds [of cleanScan 0]
    by (simp add: s1 s2 s3 s4)
qed

subsection \<open>The first scenario\<close>

text \<open>
  C8. For the scan of the first scenario the contributions are 15 + 10 (owner and age),
  10 (one critical finding), 15 + 10 (liquidity), 15 + 10 (holders) and 0 (honeypot
  check), the score is 85 and the verdict CRITICAL, whatever the sentiment result is.
\<close>

theorem scenario1_score:
  "tokenInfoPoints (tokenInfo scenario1) = 15 + 10 \<and>
   contractScanPoints (contractScan scenario1) = 10 \<and>
   liquidityPoints (liquidity scenario1) = 15 + 10 \<and>
   holdersPoints (holders scenario1) = 15 + 10 \<and>
   honeypotPoints (honeypot scenario1) = 0 \<and>
   rawScore (scenario1\<lparr>sentiment := s\<rparr>) = 85 \<and>
   riskScore (scenario1\<lparr>sentiment := s\<rparr>) = 85 \<and>
   riskLevel (scenario1\<lparr>sentiment := s\<rparr>) = CRITICAL"
  by (simp add: scenario1_def scan_defs)

subsection \<open>The sentiment result is not read\<close>

text \<open>
  C9. Two scans that differ in their sentiment result only (in any way: another score,
  a failure instead of a success) have the same score and the same verdict.
\<close>

theorem sentiment_independent:
  assumes "tokenInfo s1 = tokenInfo s2" and "contractScan s1 = contractScan s2"
    and "liquidity s1 = liquidity s2" and "holders s1 = holders s2"
    and "honeypot s1 = honeypot s2"
  shows "riskScore s1 = riskScore s2 \<and> riskLevel s1 = riskLevel s2"
  using assms by (simp add: riskScore_def rawScore_def riskLevel_def)

theorem sentiment_independent_witness:
  "sentiment scenario1 \<noteq> sentiment (scenario1\<lparr>sentiment := sentiment failedScan\<rparr>) \<and>
   riskScore scenario1 = riskScore (scenario1\<lparr>sentiment := sentiment failedScan\<rparr>) \<and>
   riskLevel scenario1 = riskLevel (scenario1\<lparr>sentiment := sentiment failedScan\<rparr>)"
  using sentiment_independent [of scenario1 "scenario1\<lparr>sentiment := sentiment failedScan\<rparr>"]
  by (simp add: scenario1_def failedScan_def)

subsection \<open>More adverse findings and the score\<close>











section \<open>Properties of the fetchers' labels\<close>

lemma liquidityRisk_known: "liquidityRisk usd safe \<noteq> UNKNOWN"
  by (simp add: liquidityRisk_def)

lemma holdersRisk_known: "holdersRisk top1 top10 \<noteq> UNKNOWN"
  by (simp add: holdersRisk_def)

lemma honeypotRisk_known: "honeypotRisk hp found \<noteq> UNKNOWN"
  by (simp add: honeypotRisk_def)

lemma checkTokenInfo_risk:
  "(risk (checkTokenInfo basics ownerCall age) = Some UNKNOWN)
     = (\<not> success (checkTokenInfo basics ownerCall age))"
  by (simp add: checkTokenInfo_def Let_def split: outcome.split)

lemma checkContractFunctions_risk:
  "(risk (checkContractFunctions hasApiKey abi) = Some UNKNOWN)
     = (\<not> success (checkContractFunctions hasApiKey abi))"
  by (simp add: checkContractFunctions_def Let_def split: outcome.split option.split)

lemma checkHolders_risk:
  "(risk (checkHolders moralis goplus) = Some UNKNOWN)
     = (\<not> success (checkHolders moralis goplus))"
  by (simp add: checkHolders_def holdersRisk_known
      split: outcome.split option.split prod.split)

lemma checkHoneypot_risk:
  "(risk (checkHoneypot response) = Some UNKNOWN) = (\<not> success (checkHoneypot response))"
  by (simp add: checkHoneypot_def honeypotRisk_known
      split: outcome.split security_response.split)

lemma checkLiquidity_risk:
  "p \<noteq> Fin 0 \<Longrightarrow>
   (risk (checkLiquidity (Returned (p, a, b)) locks) = Some UNKNOWN)
     = (\<not> success (checkLiquidity (Returned (p, a, b)) locks))"
  by (simp add: checkLiquidity_def Let_def liquidityRisk_known split: outcome.split)

lemma checkSocialSentiment_risk:
  "risk (checkSocialSentiment response)
     = (if success (checkSocialSentiment response) then None else Some UNKNOWN)"
  by (simp add: checkSocialSentiment_def Let_def split: outcome.split dex_response.split)

text \<open>
  C7, as the claim states it, fails: when no price was found for the token
  (\<^verbatim>\<open>priceInUSD === 0\<close>), \<^verbatim>\<open>checkLiquidity\<close> returns \<^verbatim>\<open>success: false\<close> with
  \<^verbatim>\<open>risk: 'CRITICAL'\<close>, not \<^verbatim>\<open>'UNKNOWN'\<close>.
\<close>

theorem liquidity_failure_counterexample:
  "\<not> success (checkLiquidity (Returned (Fin 0, Fin 0, Fin 0)) (Returned (Fin 0))) \<and>
   risk (checkLiquidity (Returned (Fin 0, Fin 0, Fin 0)) (Returned (Fin 0))) = Some CRITICAL \<and>
   risk (checkLiquidity (Returned (Fin 0, Fin 0, Fin 0)) (Returned (Fin 0))) \<noteq> Some UNKNOWN"
  by (simp add: checkLiquidity_def)

text \<open>
  C7, amended. For \<^verbatim>\<open>checkTokenInfo\<close>, \<^verbatim>\<open>checkContractFunctions\<close>, \<^verbatim>\<open>checkHolders\<close> and
  \<^verbatim>\<open>checkHoneypot\<close> the result always has a risk, and the risk is UNKNOWN exactly when
  \<^verbatim>\<open>success\<close> is false. \<^verbatim>\<open>checkLiquidity\<close> always sets a risk too; its result for a token
  without a price has \<^verbatim>\<open>success\<close> false and the risk CRITICAL, its result after an
  exception has \<^verbatim>\<open>success\<close> false and the risk UNKNOWN, and with a price its risk is
  UNKNOWN exactly when \<^verbatim>\<open>success\<close> is false. A failed \<^verbatim>\<open>checkSocialSentiment\<close> has the
  risk UNKNOWN, and a successful one has no risk property.
\<close>

theorem fetcher_risk_labels:
  "((risk (checkTokenInfo basics ownerCall age) = Some UNKNOWN)
      = (\<not> success (checkTokenInfo basics ownerCall age))) \<and>
   ((risk (checkContractFunctions hasApiKey abi) = Some UNKNOWN)
      = (\<not> success (checkContractFunctions hasApiKey abi))) \<and>
   ((risk (checkHolders moralis goplus) = Some UNKNOWN)
      = (\<not> success (checkHolders moralis goplus))) \<and>
   ((risk (checkHoneypot security) = Some UNKNOWN)
      = (\<not> success (checkHoneypot security))) \<and>
   risk (checkTokenInfo basics ownerCall age) \<noteq> None \<and>
   risk (checkContractFunctions hasApiKey abi) \<noteq> None \<and>
   risk (checkHolders moralis goplus) \<noteq> None \<and>
   risk (checkHoneypot security) \<noteq> None \<and>
   risk (checkLiquidity prices locks) \<noteq> None \<and>
   \<not> success (checkLiquidity (Returned (Fin 0, a, b)) locks) \<and>
   risk (checkLiquidity (Returned (Fin 0, a, b)) locks) = Some CRITICAL \<and>
   \<not> success (checkLiquidity (Threw msg) locks) \<and>
   risk (checkLiquidity (Threw msg) locks) = Some UNKNOWN \<and>
   (p \<noteq> Fin 0 \<longrightarrow>
      (risk (checkLiquidity (Returned (p, a, b)) locks) = Some UNKNOWN)
        = (\<not> success (checkLiquidity (Returned (p, a, b)) locks))) \<and>
   (\<not> success (checkSocialSentiment dex) \<longrightarrow>
      risk (checkSocialSentiment dex) = Some UNKNOWN) \<and>
   (success (checkSocialSentiment dex) \<longrightarrow> risk (checkSocialSentiment dex) = None)"
proof -
  have none:
    "risk (checkTokenInfo basics ownerCall age) \<noteq> None"
    "risk (checkContractFunctions hasApiKey abi) \<noteq> None"
    "risk (checkHolders moralis goplus) \<noteq> None"
    "risk (checkHoneypot security) \<noteq> None"
    "risk (checkLiquidity prices locks) \<noteq> None"
    by (simp_all add: checkTokenInfo_def checkContractFunctions_def checkHolders_def
        checkHoneypot_def checkLiquidity_def Let_def
        split: outcome.split option.split prod.split security_response.split)
  have pool:
    "\<not> success (checkLiquidity (Returned (Fin 0, a, b)) locks)"
    "risk (checkLiquidity (Returned (Fin 0, a, b)) locks) = Some CRITICAL"
    "\<not> success (checkLiquidity (Threw msg) locks)"
    "risk (checkLiquidity (Threw msg) locks) = Some UNKNOWN"
    by (simp_all add: checkLiquidity_def)
  show ?thesis
    using none pool checkLiquidity_risk [of p a b locks]
    by (simp add: checkTokenInfo_risk checkContractFunctions_risk checkHolders_risk
        checkHoneypot_risk checkSocialSentiment_risk)
qed

text \<open>
  A token whose calls all answer: no owner function, an ABI with a \<^verbatim>\<open>mint\<close> function,
  holders at 5 % and 20 %, no flag from the security API, a price with 60000 USD of
  liquidity and 40 % of the LP tokens secured, a sentiment score of 50.
\<close>

theorem fetcher_risk_labels_witness:
  "risk (checkTokenInfo (Returned ()) (Threw ''missing revert data'') None) = Some LOW \<and>
   risk (checkContractFunctions True (Returned (Some [''mint'', ''transfer''])))
     = Some CRITICAL \<and>
   risk (checkHolders (Returned (Some (Fin 5, Fin 20))) (Returned None)) = Some LOW \<and>
   risk (checkHoneypot (Returned (TokenData cleanFlags))) = Some LOW \<and>
   Fin 1 \<noteq> Fin 0 \<and>
   success (checkLiquidity (Returned (Fin 1, Fin 60000, Fin 0)) (Returned (Fin 40))) \<and>
   risk (checkLiquidity (Returned (Fin 1, Fin 60000, Fin 0)) (Returned (Fin 40)))
     = Some MEDIUM \<and>
   success (checkSocialSentiment (Returned (MainPair (Fin 50)))) \<and>
   risk (checkSocialSentiment (Returned (MainPair (Fin 50)))) = None"
proof -
  have abi:
    "risk (checkContractFunctions True (Returned (Some [''mint'', ''transfer''])))
       = Some CRITICAL"
    by (simp add: checkContractFunctions_def scanFunction_def minting_def pausing_def
        blacklisting_def fees_def Let_def)
  show ?thesis
    using fetcher_risk_labels [of "Returned ()" "Threw ''missing revert data''" None
        True "Returned (Some [''mint'', ''transfer''])"
        "Returned (Some (Fin 5, Fin 20))" "Returned None"
        "Returned (TokenData cleanFlags)"
        "Returned (Fin 1, Fin 60000, Fin 0)" "Returned (Fin 40)"
        "Fin 60000" "Fin 0" "''x''" "Fin 1" "Returned (MainPair (Fin 50))"]
    by (simp add: abi checkTokenInfo_def checkHolders_def holdersRisk_def checkHoneypot_def
        honeypotRisk_def categorize_def pushIf_def taxAbove_def taxWithin_def cleanFlags_def
        checkLiquidity_def liquidityRisk_def checkSocialSentiment_def Let_def)
qed

subsection \<open>The label of the liquidity check is never HIGH\<close>

lemma js_less_50_80: "js_less safe (Fin 50) \<Longrightarrow> js_less safe (Fin 80)"
  by (cases safe) auto

lemma liquidityRisk_not_HIGH: "liquidityRisk usd safe \<noteq> HIGH"
  by (auto simp: liquidityRisk_def dest: js_less_50_80)

text \<open>
  C10. The label of a successful liquidity check is LOW, MEDIUM or CRITICAL, never HIGH:
  the last branch of the ladder, \<^verbatim>\<open>safePercent < 50\<close>, cannot be reached, since a secured
  share below 50 already meets the condition of CRITICAL (with less than 10000 USD) or
  that of MEDIUM (a secured share below 80).
\<close>

theorem liquidity_never_high:
  "(success (checkLiquidity prices locks) \<longrightarrow>
      risk (checkLiquidity prices locks) \<in> {Some LOW, Some MEDIUM, Some CRITICAL}) \<and>
   liquidityRisk usd safe \<noteq> HIGH \<and>
   (js_less safe (Fin 50) \<longrightarrow>
      (js_less usd (Fin 10000) \<and> js_less safe (Fin 50)) \<or>
      (js_less usd (Fin 50000) \<or> js_less safe (Fin 80)))"
proof -
  have "risk (checkLiquidity prices locks) \<in> {Some LOW, Some MEDIUM, Some CRITICAL}"
    if "success (checkLiquidity prices locks)"
  proof -
    from that obtain u s where "risk (checkLiquidity prices locks) = Some (liquidityRisk u s)"
      by (auto simp: checkLiquidity_def Let_def split: outcome.splits prod.splits if_splits)
    then show ?thesis
      using liquidityRisk_not_HIGH [of u s]
      by (cases "liquidityRisk u s") (auto simp: liquidityRisk_def split: if_splits)
  qed
  then show ?thesis
    using liquidityRisk_not_HIGH js_less_50_80 by blast
qed

text \<open>
  Ample liquidity with less than half of the LP tokens secured, the case the HIGH branch
  was written for, is labelled MEDIUM.
\<close>

theorem liquidity_never_high_witness:
  "success (checkLiquidity (Returned (Fin 1, Fin 60000, Fin 0)) (Returned (Fin 40))) \<and>
   risk (checkLiquidity (Returned (Fin 1, Fin 60000, Fin 0)) (Returned (Fin 40)))
     = Some MEDIUM \<and>
   liquidityRisk (Fin 60000) (Fin 40) = MEDIUM \<and>
   js_less (Fin 40) (Fin 50) \<and> js_less (Fin 40) (Fin 80)"
  using liquidity_never_high [of "Returned (Fin 1, Fin 60000, Fin 0)" "Returned (Fin 40)"
      "Fin 60000" "Fin 40"]
  by (simp add: checkLiquidity_def liquidityRisk_def)

end
